theory Spec2Isabelle
  imports Main
begin

section \<open>Severity levels\<close>

text \<open>
  \<^verbatim>\<open>enum class loglevel { fatal, error, warning, info, verbose, trace };\<close>

  A scoped enumeration has the underlying type \<^verbatim>\<open>int\<close>, and every value of the
  underlying type is a value of the enumeration: the \<^verbatim>\<open>default\<close> label of
  \<^verbatim>\<open>Logger::loglevelstring\<close> is there for the values that are none of the six
  enumerators. A level is therefore modelled by its integer value, and the
  enumerators are the constants 0 to 5 in declaration order.
\<close>

type_synonym loglevel = int

definition fatal :: loglevel where "fatal = 0"
definition error :: loglevel where "error = 1"
definition warning :: loglevel where "warning = 2"
definition info :: loglevel where "info = 3"
definition verbose :: loglevel where "verbose = 4"
definition trace :: loglevel where "trace = 5"

text \<open>The six enumerators, in declaration order.\<close>

definition loglevels :: "loglevel list" where
  "loglevels = [fatal, error, warning, info, verbose, trace]"

text \<open>
  \<^verbatim>\<open>static_cast<size_t>(level)\<close>: conversion of the underlying integer to an
  unsigned 64-bit value, which is reduction modulo \<open>2 ^ 64\<close>.
\<close>

definition static_cast_size_t :: "loglevel \<Rightarrow> nat" where
  "static_cast_size_t level = nat (level mod 2 ^ 64)"

section \<open>Logger\<close>

text \<open>
  \<^verbatim>\<open>class Logger { protected: std::vector<bool> enabledWarningLevels; ... }\<close>

  The only data member is the vector of gates. Classes derived from it (the
  console logger) extend the record.
\<close>

record Logger =
  enabledWarningLevels :: "bool list"

text \<open>
  \<^verbatim>\<open>Logger() : enabledWarningLevels({ true, true, true, true, true, true }) {}\<close>
\<close>

definition Logger_ctor :: Logger where
  "Logger_ctor = \<lparr>enabledWarningLevels = [True, True, True, True, True, True]\<rparr>"

text \<open>
  \<^verbatim>\<open>bool isEnabled(loglevel level) const
    { return enabledWarningLevels[static_cast<size_t>(level)]; }\<close>

  \<^verbatim>\<open>operator[]\<close> of a vector does no bounds check: an index past the end is
  undefined behaviour, which the model returns as \<open>None\<close>.
\<close>

definition isEnabled :: "'a Logger_scheme \<Rightarrow> loglevel \<Rightarrow> bool option" where
  "isEnabled lg level =
     (let i = static_cast_size_t level in
      if i < length (enabledWarningLevels lg)
      then Some (enabledWarningLevels lg ! i)
      else None)"

text \<open>
  \<^verbatim>\<open>void setEnabled(loglevel level, bool isEnabled)
    { enabledWarningLevels[static_cast<size_t>(level)] = isEnabled; }\<close>

  The logger is mutated in place; the model returns the logger after the call,
  or \<open>None\<close> for the out-of-range write.
\<close>

definition setEnabled :: "'a Logger_scheme \<Rightarrow> loglevel \<Rightarrow> bool \<Rightarrow> 'a Logger_scheme option" where
  "setEnabled lg level b =
     (let i = static_cast_size_t level in
      if i < length (enabledWarningLevels lg)
      then Some (lg\<lparr>enabledWarningLevels := (enabledWarningLevels lg)[i := b]\<rparr>)
      else None)"

text \<open>
  \<^verbatim>\<open>static std::string_view loglevelstring(loglevel level)
  {
    switch (level) {
    case loglevel::fatal: return "[FAT]"sv;
    case loglevel::error: return "[ERR]"sv;
    case loglevel::warning: return "[WRN]"sv;
    case loglevel::info: return "[INF]"sv;
    case loglevel::verbose: return "[VBS]"sv;
    case loglevel::trace: return "[TRC]"sv;
    default: return "[???]"sv;
    }
  }\<close>
\<close>

definition loglevelstring :: "loglevel \<Rightarrow> string" where
  "loglevelstring level =
     (if level = fatal then ''[FAT]''
      else if level = error then ''[ERR]''
      else if level = warning then ''[WRN]''
      else if level = info then ''[INF]''
      else if level = verbose then ''[VBS]''
      else if level = trace then ''[TRC]''
      else ''[???]'')"

text \<open>
  The member functions that the class \<^verbatim>\<open>Logger\<close> defines itself, as calls on a
  logger. \<^verbatim>\<open>isEnabled\<close> is a \<^verbatim>\<open>const\<close> member and \<^verbatim>\<open>loglevelstring\<close> is
  \<^verbatim>\<open>static\<close>: they return a value and leave the object as it is.
  (\<^verbatim>\<open>log\<close> is pure virtual in \<^verbatim>\<open>Logger\<close>; it has no body there.)
\<close>

datatype Logger_call =
  Call_isEnabled loglevel
| Call_setEnabled loglevel bool
| Call_loglevelstring loglevel

fun Logger_exec :: "Logger_call \<Rightarrow> 'a Logger_scheme \<Rightarrow> 'a Logger_scheme option" where
  "Logger_exec (Call_isEnabled level) lg =
     (case isEnabled lg level of None \<Rightarrow> None | Some r \<Rightarrow> Some lg)"
| "Logger_exec (Call_setEnabled level b) lg = setEnabled lg level b"
| "Logger_exec (Call_loglevelstring level) lg = Some lg"

section \<open>Locations\<close>

text \<open>
  \<^verbatim>\<open>class LogLocationInfo { public: std::string path; size_t line; size_t col; ... }\<close>

  The line and the column are only stored and printed, never computed with, so
  \<^verbatim>\<open>size_t\<close> is read as a natural number.
\<close>

record LogLocationInfo =
  path :: string
  line :: nat
  col :: nat

section \<open>Messages\<close>

text \<open>The six namespaces of \<^verbatim>\<open>namespace logmessage\<close>.\<close>

datatype domain = preprocessor | assembly | sqf | config | linting | runtime

text \<open>
  What the header fixes for one message class: the namespace it is declared in,
  its name, its two private constants \<^verbatim>\<open>static const loglevel level\<close> and
  \<^verbatim>\<open>static const size_t errorCode\<close>, and its non-static data members (the payload)
  as pairs of declared type and name, in declaration order.
\<close>

record kind =
  namespace :: domain
  class_name :: string
  static_level :: loglevel
  static_errorCode :: nat
  members :: "(string \<times> string) list"

text \<open>
  \<^verbatim>\<open>class LogMessageBase { ... protected: loglevel level = loglevel::verbose; size_t errorCode; };\<close>

  \<^verbatim>\<open>LogMessageBase(loglevel level, size_t code) : level(level), errorCode(code) {}\<close>
\<close>

record LogMessageBase =
  level :: loglevel
  errorCode :: nat

definition LogMessageBase_ctor :: "loglevel \<Rightarrow> nat \<Rightarrow> LogMessageBase" where
  "LogMessageBase_ctor lvl code = \<lparr>level = lvl, errorCode = code\<rparr>"

text \<open>
  A message object of a concrete class: the base subobject, the class the object
  was created as (what virtual dispatch sees), the \<^verbatim>\<open>location\<close> member of the
  namespace's base class, and the values of the class's own data members. The
  members differ from class to class and no operation of the header looks into
  them, so their values are one value of an arbitrary type \<open>'p\<close>.
\<close>

record 'p LogMessage = LogMessageBase +
  dynamic_type :: kind
  location :: LogLocationInfo
  payload :: 'p

text \<open>
  \<^verbatim>\<open>virtual loglevel getLevel() { return level; }\<close>

  \<^verbatim>\<open>virtual size_t getErrorCode() { return errorCode; }\<close>

  No class of the header overrides either of them.
\<close>

definition getLevel :: "'a LogMessageBase_scheme \<Rightarrow> loglevel" where
  "getLevel m = level m"

definition getErrorCode :: "'a LogMessageBase_scheme \<Rightarrow> nat" where
  "getErrorCode m = errorCode m"

text \<open>
  The base class of each namespace (\<^verbatim>\<open>PreprocBase\<close>, \<^verbatim>\<open>AssemblyBase\<close>, \<^verbatim>\<open>SqfBase\<close>,
  \<^verbatim>\<open>ConfigBase\<close>, \<^verbatim>\<open>LintingBase\<close>, \<^verbatim>\<open>RuntimeBase\<close>) has the same constructor:

  \<^verbatim>\<open>RuntimeBase(loglevel level, size_t errorCode, LogLocationInfo location) :
    LogMessageBase(level, errorCode), location(std::move(location)) {}\<close>

  and every constructor of every message class either delegates to another
  constructor of its own class or has the shape

  \<^verbatim>\<open>X(LogLocationInfo loc, ...) : RuntimeBase(level, errorCode, std::move(loc)), m_a(a), ... {}\<close>

  where \<^verbatim>\<open>level\<close> and \<^verbatim>\<open>errorCode\<close> are the private static constants of \<^verbatim>\<open>X\<close>.
  The constructor arguments other than \<^verbatim>\<open>loc\<close> only decide the values of the
  members; \<open>construct k loc p\<close> is the object of class \<open>k\<close> that a constructor
  call leaves with location \<open>loc\<close> and member values \<open>p\<close>.
\<close>

definition construct :: "kind \<Rightarrow> LogLocationInfo \<Rightarrow> 'p \<Rightarrow> 'p LogMessage" where
  "construct k loc p =
     LogMessageBase.extend (LogMessageBase_ctor (static_level k) (static_errorCode k))
       (LogMessage.fields k loc p)"

section \<open>The catalog of message classes\<close>

subsection \<open>Namespace \<^verbatim>\<open>logmessage::preprocessor\<close>\<close>

definition ArgCountMissmatch :: kind where
  "ArgCountMissmatch = \<lparr>namespace = preprocessor, class_name = ''ArgCountMissmatch'',
     static_level = error, static_errorCode = 10001,
     members = []\<rparr>"

definition UnexpectedDataAfterInclude :: kind where
  "UnexpectedDataAfterInclude = \<lparr>namespace = preprocessor, class_name = ''UnexpectedDataAfterInclude'',
     static_level = warning, static_errorCode = 10002,
     members = []\<rparr>"

definition RecursiveInclude :: kind where
  "RecursiveInclude = \<lparr>namespace = preprocessor, class_name = ''RecursiveInclude'',
     static_level = error, static_errorCode = 10003,
     members = [(''std::string'', ''includeTree'')]\<rparr>"

definition IncludeFailed :: kind where
  "IncludeFailed = \<lparr>namespace = preprocessor, class_name = ''IncludeFailed'',
     static_level = error, static_errorCode = 10004,
     members = [(''std::string_view'', ''line''), (''const std::runtime_error&'', ''exception'')]\<rparr>"

definition MacroDefinedTwice :: kind where
  "MacroDefinedTwice = \<lparr>namespace = preprocessor, class_name = ''MacroDefinedTwice'',
     static_level = warning, static_errorCode = 10005,
     members = [(''std::string_view'', ''macroname'')]\<rparr>"

definition MacroNotFound :: kind where
  "MacroNotFound = \<lparr>namespace = preprocessor, class_name = ''MacroNotFound'',
     static_level = warning, static_errorCode = 10006,
     members = [(''std::string_view'', ''macroname'')]\<rparr>"

definition UnexpectedIfdef :: kind where
  "UnexpectedIfdef = \<lparr>namespace = preprocessor, class_name = ''UnexpectedIfdef'',
     static_level = error, static_errorCode = 10007,
     members = []\<rparr>"

definition UnexpectedIfndef :: kind where
  "UnexpectedIfndef = \<lparr>namespace = preprocessor, class_name = ''UnexpectedIfndef'',
     static_level = error, static_errorCode = 10008,
     members = []\<rparr>"

definition UnexpectedElse :: kind where
  "UnexpectedElse = \<lparr>namespace = preprocessor, class_name = ''UnexpectedElse'',
     static_level = error, static_errorCode = 10009,
     members = []\<rparr>"

definition UnexpectedEndif :: kind where
  "UnexpectedEndif = \<lparr>namespace = preprocessor, class_name = ''UnexpectedEndif'',
     static_level = error, static_errorCode = 10010,
     members = []\<rparr>"

definition MissingEndif :: kind where
  "MissingEndif = \<lparr>namespace = preprocessor, class_name = ''MissingEndif'',
     static_level = error, static_errorCode = 10011,
     members = []\<rparr>"

definition UnknownInstruction :: kind where
  "UnknownInstruction = \<lparr>namespace = preprocessor, class_name = ''UnknownInstruction'',
     static_level = error, static_errorCode = 10012,
     members = [(''std::string_view'', ''instruction'')]\<rparr>"

definition EmptyArgument :: kind where
  "EmptyArgument = \<lparr>namespace = preprocessor, class_name = ''EmptyArgument'',
     static_level = warning, static_errorCode = 10013,
     members = []\<rparr>"


subsection \<open>Namespace \<^verbatim>\<open>logmessage::assembly\<close>\<close>

definition ExpectedSemicolon :: kind where
  "ExpectedSemicolon = \<lparr>namespace = assembly, class_name = ''ExpectedSemicolon'',
     static_level = error, static_errorCode = 20001,
     members = []\<rparr>"

definition NoViableAlternativeInstructions :: kind where
  "NoViableAlternativeInstructions = \<lparr>namespace = assembly, class_name = ''NoViableAlternativeInstructions'',
     static_level = error, static_errorCode = 20002,
     members = []\<rparr>"

definition NoViableAlternativeArg :: kind where
  "NoViableAlternativeArg = \<lparr>namespace = assembly, class_name = ''NoViableAlternativeArg'',
     static_level = error, static_errorCode = 20003,
     members = []\<rparr>"

definition ExpectedEndStatement :: kind where
  "ExpectedEndStatement = \<lparr>namespace = assembly, class_name = ''ExpectedEndStatement'',
     static_level = error, static_errorCode = 20004,
     members = []\<rparr>"

definition ExpectedCallNular :: kind where
  "ExpectedCallNular = \<lparr>namespace = assembly, class_name = ''ExpectedCallNular'',
     static_level = error, static_errorCode = 20005,
     members = []\<rparr>"

definition ExpectedNularOperator :: kind where
  "ExpectedNularOperator = \<lparr>namespace = assembly, class_name = ''ExpectedNularOperator'',
     static_level = error, static_errorCode = 20006,
     members = []\<rparr>"

definition UnknownNularOperator :: kind where
  "UnknownNularOperator = \<lparr>namespace = assembly, class_name = ''UnknownNularOperator'',
     static_level = error, static_errorCode = 20007,
     members = [(''std::string_view'', ''operator_name'')]\<rparr>"

definition ExpectedCallUnary :: kind where
  "ExpectedCallUnary = \<lparr>namespace = assembly, class_name = ''ExpectedCallUnary'',
     static_level = error, static_errorCode = 20008,
     members = []\<rparr>"

definition ExpectedUnaryOperator :: kind where
  "ExpectedUnaryOperator = \<lparr>namespace = assembly, class_name = ''ExpectedUnaryOperator'',
     static_level = error, static_errorCode = 20009,
     members = []\<rparr>"

definition UnknownUnaryOperator :: kind where
  "UnknownUnaryOperator = \<lparr>namespace = assembly, class_name = ''UnknownUnaryOperator'',
     static_level = error, static_errorCode = 20010,
     members = [(''std::string_view'', ''operator_name'')]\<rparr>"

definition ExpectedCallBinary :: kind where
  "ExpectedCallBinary = \<lparr>namespace = assembly, class_name = ''ExpectedCallBinary'',
     static_level = error, static_errorCode = 20011,
     members = []\<rparr>"

definition ExpectedBinaryOperator :: kind where
  "ExpectedBinaryOperator = \<lparr>namespace = assembly, class_name = ''ExpectedBinaryOperator'',
     static_level = error, static_errorCode = 20012,
     members = []\<rparr>"

definition UnknownBinaryOperator :: kind where
  "UnknownBinaryOperator = \<lparr>namespace = assembly, class_name = ''UnknownBinaryOperator'',
     static_level = error, static_errorCode = 20013,
     members = [(''std::string_view'', ''operator_name'')]\<rparr>"

definition ExpectedAssignTo :: kind where
  "ExpectedAssignTo = \<lparr>namespace = assembly, class_name = ''ExpectedAssignTo'',
     static_level = error, static_errorCode = 20014,
     members = []\<rparr>"

definition ExpectedVariableName :: kind where
  "ExpectedVariableName = \<lparr>namespace = assembly, class_name = ''ExpectedVariableName'',
     static_level = error, static_errorCode = 20015,
     members = []\<rparr>"

definition ExpectedAssignToLocal :: kind where
  "ExpectedAssignToLocal = \<lparr>namespace = assembly, class_name = ''ExpectedAssignToLocal'',
     static_level = error, static_errorCode = 20016,
     members = []\<rparr>"

definition ExpectedGetVariable :: kind where
  "ExpectedGetVariable = \<lparr>namespace = assembly, class_name = ''ExpectedGetVariable'',
     static_level = error, static_errorCode = 20017,
     members = []\<rparr>"

definition ExpectedMakeArray :: kind where
  "ExpectedMakeArray = \<lparr>namespace = assembly, class_name = ''ExpectedMakeArray'',
     static_level = error, static_errorCode = 20018,
     members = []\<rparr>"

definition ExpectedInteger :: kind where
  "ExpectedInteger = \<lparr>namespace = assembly, class_name = ''ExpectedInteger'',
     static_level = error, static_errorCode = 20019,
     members = []\<rparr>"

definition ExpectedPush :: kind where
  "ExpectedPush = \<lparr>namespace = assembly, class_name = ''ExpectedPush'',
     static_level = error, static_errorCode = 20020,
     members = []\<rparr>"

definition ExpectedTypeName :: kind where
  "ExpectedTypeName = \<lparr>namespace = assembly, class_name = ''ExpectedTypeName'',
     static_level = error, static_errorCode = 20021,
     members = []\<rparr>"

definition NumberOutOfRange :: kind where
  "NumberOutOfRange = \<lparr>namespace = assembly, class_name = ''NumberOutOfRange'',
     static_level = warning, static_errorCode = 20022,
     members = []\<rparr>"


subsection \<open>Namespace \<^verbatim>\<open>logmessage::sqf\<close>\<close>

definition sqf_ExpectedStatementTerminator :: kind where
  "sqf_ExpectedStatementTerminator = \<lparr>namespace = sqf, class_name = ''ExpectedStatementTerminator'',
     static_level = error, static_errorCode = 30001,
     members = []\<rparr>"

definition NoViableAlternativeStatement :: kind where
  "NoViableAlternativeStatement = \<lparr>namespace = sqf, class_name = ''NoViableAlternativeStatement'',
     static_level = error, static_errorCode = 30002,
     members = []\<rparr>"

definition MissingUnderscoreOnPrivateVariable :: kind where
  "MissingUnderscoreOnPrivateVariable = \<lparr>namespace = sqf, class_name = ''MissingUnderscoreOnPrivateVariable'',
     static_level = error, static_errorCode = 30003,
     members = [(''std::string_view'', ''m_variable_name'')]\<rparr>"

definition ExpectedBinaryExpression :: kind where
  "ExpectedBinaryExpression = \<lparr>namespace = sqf, class_name = ''ExpectedBinaryExpression'',
     static_level = error, static_errorCode = 30004,
     members = []\<rparr>"

definition MissingRightArgument :: kind where
  "MissingRightArgument = \<lparr>namespace = sqf, class_name = ''MissingRightArgument'',
     static_level = error, static_errorCode = 30005,
     members = [(''std::string_view'', ''m_operator_name'')]\<rparr>"

definition sqf_MissingRoundClosingBracket :: kind where
  "sqf_MissingRoundClosingBracket = \<lparr>namespace = sqf, class_name = ''MissingRoundClosingBracket'',
     static_level = error, static_errorCode = 30006,
     members = []\<rparr>"

definition sqf_MissingCurlyClosingBracket :: kind where
  "sqf_MissingCurlyClosingBracket = \<lparr>namespace = sqf, class_name = ''MissingCurlyClosingBracket'',
     static_level = error, static_errorCode = 30007,
     members = []\<rparr>"

definition sqf_MissingSquareClosingBracket :: kind where
  "sqf_MissingSquareClosingBracket = \<lparr>namespace = sqf, class_name = ''MissingSquareClosingBracket'',
     static_level = error, static_errorCode = 30008,
     members = []\<rparr>"

definition NoViableAlternativePrimaryExpression :: kind where
  "NoViableAlternativePrimaryExpression = \<lparr>namespace = sqf, class_name = ''NoViableAlternativePrimaryExpression'',
     static_level = error, static_errorCode = 30009,
     members = []\<rparr>"

definition EmptyNumber :: kind where
  "EmptyNumber = \<lparr>namespace = sqf, class_name = ''EmptyNumber'',
     static_level = error, static_errorCode = 30010,
     members = []\<rparr>"

definition ExpectedSQF :: kind where
  "ExpectedSQF = \<lparr>namespace = sqf, class_name = ''ExpectedSQF'',
     static_level = error, static_errorCode = 30011,
     members = []\<rparr>"

definition EndOfFile :: kind where
  "EndOfFile = \<lparr>namespace = sqf, class_name = ''EndOfFile'',
     static_level = error, static_errorCode = 30012,
     members = []\<rparr>"


subsection \<open>Namespace \<^verbatim>\<open>logmessage::config\<close>\<close>

definition config_ExpectedStatementTerminator :: kind where
  "config_ExpectedStatementTerminator = \<lparr>namespace = config, class_name = ''ExpectedStatementTerminator'',
     static_level = error, static_errorCode = 40001,
     members = []\<rparr>"

definition NoViableAlternativeNode :: kind where
  "NoViableAlternativeNode = \<lparr>namespace = config, class_name = ''NoViableAlternativeNode'',
     static_level = error, static_errorCode = 40002,
     members = []\<rparr>"

definition ExpectedIdentifier :: kind where
  "ExpectedIdentifier = \<lparr>namespace = config, class_name = ''ExpectedIdentifier'',
     static_level = error, static_errorCode = 40003,
     members = []\<rparr>"

definition config_MissingRoundClosingBracket :: kind where
  "config_MissingRoundClosingBracket = \<lparr>namespace = config, class_name = ''MissingRoundClosingBracket'',
     static_level = error, static_errorCode = 40004,
     members = []\<rparr>"

definition MissingCurlyOpeningBracket :: kind where
  "MissingCurlyOpeningBracket = \<lparr>namespace = config, class_name = ''MissingCurlyOpeningBracket'',
     static_level = error, static_errorCode = 40005,
     members = []\<rparr>"

definition config_MissingCurlyClosingBracket :: kind where
  "config_MissingCurlyClosingBracket = \<lparr>namespace = config, class_name = ''MissingCurlyClosingBracket'',
     static_level = error, static_errorCode = 40006,
     members = []\<rparr>"

definition config_MissingSquareClosingBracket :: kind where
  "config_MissingSquareClosingBracket = \<lparr>namespace = config, class_name = ''MissingSquareClosingBracket'',
     static_level = error, static_errorCode = 40007,
     members = []\<rparr>"

definition MissingEqualSign :: kind where
  "MissingEqualSign = \<lparr>namespace = config, class_name = ''MissingEqualSign'',
     static_level = error, static_errorCode = 40008,
     members = []\<rparr>"

definition ExpectedArray :: kind where
  "ExpectedArray = \<lparr>namespace = config, class_name = ''ExpectedArray'',
     static_level = error, static_errorCode = 40009,
     members = []\<rparr>"

definition ExpectedValue :: kind where
  "ExpectedValue = \<lparr>namespace = config, class_name = ''ExpectedValue'',
     static_level = error, static_errorCode = 40010,
     members = []\<rparr>"

definition NoViableAlternativeValue :: kind where
  "NoViableAlternativeValue = \<lparr>namespace = config, class_name = ''NoViableAlternativeValue'',
     static_level = error, static_errorCode = 40011,
     members = []\<rparr>"

definition EndOfFileNotReached :: kind where
  "EndOfFileNotReached = \<lparr>namespace = config, class_name = ''EndOfFileNotReached'',
     static_level = error, static_errorCode = 40012,
     members = []\<rparr>"


subsection \<open>Namespace \<^verbatim>\<open>logmessage::linting\<close>\<close>

definition UnassignedVariable :: kind where
  "UnassignedVariable = \<lparr>namespace = linting, class_name = ''UnassignedVariable'',
     static_level = warning, static_errorCode = 50001,
     members = [(''std::string_view'', ''m_variable_name'')]\<rparr>"


subsection \<open>Namespace \<^verbatim>\<open>logmessage::runtime\<close>\<close>

definition Stacktrace :: kind where
  "Stacktrace = \<lparr>namespace = runtime, class_name = ''Stacktrace'',
     static_level = fatal, static_errorCode = 60001,
     members = [(''std::string'', ''m_stacktrace'')]\<rparr>"

definition MaximumInstructionCountReached :: kind where
  "MaximumInstructionCountReached = \<lparr>namespace = runtime, class_name = ''MaximumInstructionCountReached'',
     static_level = fatal, static_errorCode = 60002,
     members = [(''size_t'', ''m_maximum_instruction_count'')]\<rparr>"

definition ExpectedArraySizeMissmatch :: kind where
  "ExpectedArraySizeMissmatch = \<lparr>namespace = runtime, class_name = ''ExpectedArraySizeMissmatch'',
     static_level = error, static_errorCode = 60003,
     members = [(''size_t'', ''m_expected_min''), (''size_t'', ''m_expected_max''), (''size_t'', ''m_got'')]\<rparr>"

definition ExpectedArraySizeMissmatchWeak :: kind where
  "ExpectedArraySizeMissmatchWeak = \<lparr>namespace = runtime, class_name = ''ExpectedArraySizeMissmatchWeak'',
     static_level = warning, static_errorCode = 60004,
     members = [(''size_t'', ''m_expected_min''), (''size_t'', ''m_expected_max''), (''size_t'', ''m_got'')]\<rparr>"

definition ExpectedMinimumArraySizeMissmatch :: kind where
  "ExpectedMinimumArraySizeMissmatch = \<lparr>namespace = runtime, class_name = ''ExpectedMinimumArraySizeMissmatch'',
     static_level = error, static_errorCode = 60005,
     members = [(''size_t'', ''m_expected''), (''size_t'', ''m_got'')]\<rparr>"

definition ExpectedMinimumArraySizeMissmatchWeak :: kind where
  "ExpectedMinimumArraySizeMissmatchWeak = \<lparr>namespace = runtime, class_name = ''ExpectedMinimumArraySizeMissmatchWeak'',
     static_level = warning, static_errorCode = 60006,
     members = [(''size_t'', ''m_expected''), (''size_t'', ''m_got'')]\<rparr>"

definition ExpectedArrayTypeMissmatch :: kind where
  "ExpectedArrayTypeMissmatch = \<lparr>namespace = runtime, class_name = ''ExpectedArrayTypeMissmatch'',
     static_level = error, static_errorCode = 60007,
     members = [(''size_t'', ''m_position''), (''std::vector<::sqf::type>'', ''m_expected''), (''::sqf::type'', ''m_got'')]\<rparr>"

definition ExpectedArrayTypeMissmatchWeak :: kind where
  "ExpectedArrayTypeMissmatchWeak = \<lparr>namespace = runtime, class_name = ''ExpectedArrayTypeMissmatchWeak'',
     static_level = warning, static_errorCode = 60008,
     members = [(''size_t'', ''m_position''), (''std::vector<::sqf::type>'', ''m_expected''), (''::sqf::type'', ''m_got'')]\<rparr>"

definition IndexOutOfRange :: kind where
  "IndexOutOfRange = \<lparr>namespace = runtime, class_name = ''IndexOutOfRange'',
     static_level = error, static_errorCode = 60009,
     members = [(''size_t'', ''m_range''), (''size_t'', ''m_index'')]\<rparr>"

definition IndexOutOfRangeWeak :: kind where
  "IndexOutOfRangeWeak = \<lparr>namespace = runtime, class_name = ''IndexOutOfRangeWeak'',
     static_level = warning, static_errorCode = 60010,
     members = [(''size_t'', ''m_range''), (''size_t'', ''m_index'')]\<rparr>"

definition NegativeIndex :: kind where
  "NegativeIndex = \<lparr>namespace = runtime, class_name = ''NegativeIndex'',
     static_level = error, static_errorCode = 60011,
     members = []\<rparr>"

definition NegativeIndexWeak :: kind where
  "NegativeIndexWeak = \<lparr>namespace = runtime, class_name = ''NegativeIndexWeak'',
     static_level = warning, static_errorCode = 60012,
     members = []\<rparr>"

definition IndexEqualsRange :: kind where
  "IndexEqualsRange = \<lparr>namespace = runtime, class_name = ''IndexEqualsRange'',
     static_level = warning, static_errorCode = 60013,
     members = [(''size_t'', ''m_range''), (''size_t'', ''m_index'')]\<rparr>"

definition ReturningNil :: kind where
  "ReturningNil = \<lparr>namespace = runtime, class_name = ''ReturningNil'',
     static_level = verbose, static_errorCode = 60014,
     members = []\<rparr>"

definition ReturningEmptyArray :: kind where
  "ReturningEmptyArray = \<lparr>namespace = runtime, class_name = ''ReturningEmptyArray'',
     static_level = verbose, static_errorCode = 60015,
     members = []\<rparr>"

definition NegativeSize :: kind where
  "NegativeSize = \<lparr>namespace = runtime, class_name = ''NegativeSize'',
     static_level = error, static_errorCode = 60016,
     members = []\<rparr>"

definition NegativeSizeWeak :: kind where
  "NegativeSizeWeak = \<lparr>namespace = runtime, class_name = ''NegativeSizeWeak'',
     static_level = warning, static_errorCode = 60017,
     members = []\<rparr>"

definition ArrayRecursion :: kind where
  "ArrayRecursion = \<lparr>namespace = runtime, class_name = ''ArrayRecursion'',
     static_level = error, static_errorCode = 60018,
     members = []\<rparr>"

definition InfoMessage :: kind where
  "InfoMessage = \<lparr>namespace = runtime, class_name = ''InfoMessage'',
     static_level = info, static_errorCode = 60019,
     members = [(''std::string_view'', ''m_source''), (''std::string'', ''m_message'')]\<rparr>"

definition SuspensionDisabled :: kind where
  "SuspensionDisabled = \<lparr>namespace = runtime, class_name = ''SuspensionDisabled'',
     static_level = error, static_errorCode = 60020,
     members = []\<rparr>"

definition SuspensionInUnscheduledEnvironment :: kind where
  "SuspensionInUnscheduledEnvironment = \<lparr>namespace = runtime, class_name = ''SuspensionInUnscheduledEnvironment'',
     static_level = error, static_errorCode = 60021,
     members = []\<rparr>"

definition ReturningConfigNull :: kind where
  "ReturningConfigNull = \<lparr>namespace = runtime, class_name = ''ReturningConfigNull'',
     static_level = verbose, static_errorCode = 60022,
     members = []\<rparr>"

definition AssertFailed :: kind where
  "AssertFailed = \<lparr>namespace = runtime, class_name = ''AssertFailed'',
     static_level = error, static_errorCode = 60023,
     members = []\<rparr>"

definition StartIndexExceedsToIndex :: kind where
  "StartIndexExceedsToIndex = \<lparr>namespace = runtime, class_name = ''StartIndexExceedsToIndex'',
     static_level = error, static_errorCode = 60024,
     members = [(''size_t'', ''m_from''), (''size_t'', ''m_to'')]\<rparr>"

definition StartIndexExceedsToIndexWeak :: kind where
  "StartIndexExceedsToIndexWeak = \<lparr>namespace = runtime, class_name = ''StartIndexExceedsToIndexWeak'',
     static_level = warning, static_errorCode = 60025,
     members = [(''size_t'', ''m_from''), (''size_t'', ''m_to'')]\<rparr>"

definition MagicVariableTypeMissmatch :: kind where
  "MagicVariableTypeMissmatch = \<lparr>namespace = runtime, class_name = ''MagicVariableTypeMissmatch'',
     static_level = error, static_errorCode = 60026,
     members = [(''std::string_view'', ''m_variable_name''), (''::sqf::type'', ''m_expected''), (''::sqf::type'', ''m_got'')]\<rparr>"

definition ScriptHandleAlreadyTerminated :: kind where
  "ScriptHandleAlreadyTerminated = \<lparr>namespace = runtime, class_name = ''ScriptHandleAlreadyTerminated'',
     static_level = warning, static_errorCode = 60027,
     members = []\<rparr>"

definition ScriptHandleAlreadyFinished :: kind where
  "ScriptHandleAlreadyFinished = \<lparr>namespace = runtime, class_name = ''ScriptHandleAlreadyFinished'',
     static_level = warning, static_errorCode = 60028,
     members = []\<rparr>"

definition ExtensionLoaded :: kind where
  "ExtensionLoaded = \<lparr>namespace = runtime, class_name = ''ExtensionLoaded'',
     static_level = verbose, static_errorCode = 60029,
     members = [(''std::string_view'', ''m_extension_name''), (''std::string'', ''m_version'')]\<rparr>"

definition ExtensionNotTerminatingVersionString :: kind where
  "ExtensionNotTerminatingVersionString = \<lparr>namespace = runtime, class_name = ''ExtensionNotTerminatingVersionString'',
     static_level = warning, static_errorCode = 60030,
     members = [(''std::string_view'', ''m_extension_name'')]\<rparr>"

definition ExtensionNotTerminatingCallExtensionBufferString :: kind where
  "ExtensionNotTerminatingCallExtensionBufferString = \<lparr>namespace = runtime, class_name = ''ExtensionNotTerminatingCallExtensionBufferString'',
     static_level = warning, static_errorCode = 60031,
     members = [(''std::string_view'', ''m_extension_name'')]\<rparr>"

definition ExtensionNotTerminatingCallExtensionArgBufferString :: kind where
  "ExtensionNotTerminatingCallExtensionArgBufferString = \<lparr>namespace = runtime, class_name = ''ExtensionNotTerminatingCallExtensionArgBufferString'',
     static_level = warning, static_errorCode = 60032,
     members = [(''std::string_view'', ''m_extension_name'')]\<rparr>"

definition LibraryNameContainsPath :: kind where
  "LibraryNameContainsPath = \<lparr>namespace = runtime, class_name = ''LibraryNameContainsPath'',
     static_level = warning, static_errorCode = 60033,
     members = [(''std::string_view'', ''m_extension_name'')]\<rparr>"

definition ReturningEmptyString :: kind where
  "ReturningEmptyString = \<lparr>namespace = runtime, class_name = ''ReturningEmptyString'',
     static_level = verbose, static_errorCode = 60034,
     members = []\<rparr>"

definition ExtensionRuntimeError :: kind where
  "ExtensionRuntimeError = \<lparr>namespace = runtime, class_name = ''ExtensionRuntimeError'',
     static_level = warning, static_errorCode = 60035,
     members = [(''std::string_view'', ''m_extension_name''), (''std::string_view'', ''m_what'')]\<rparr>"

definition FileNotFound :: kind where
  "FileNotFound = \<lparr>namespace = runtime, class_name = ''FileNotFound'',
     static_level = warning, static_errorCode = 60036,
     members = [(''std::string_view'', ''m_filename'')]\<rparr>"

definition ScopeNameAlreadySet :: kind where
  "ScopeNameAlreadySet = \<lparr>namespace = runtime, class_name = ''ScopeNameAlreadySet'',
     static_level = error, static_errorCode = 60037,
     members = []\<rparr>"

definition ScriptNameAlreadySet :: kind where
  "ScriptNameAlreadySet = \<lparr>namespace = runtime, class_name = ''ScriptNameAlreadySet'',
     static_level = warning, static_errorCode = 60038,
     members = []\<rparr>"

definition ReturningEmptyScriptHandle :: kind where
  "ReturningEmptyScriptHandle = \<lparr>namespace = runtime, class_name = ''ReturningEmptyScriptHandle'',
     static_level = verbose, static_errorCode = 60039,
     members = []\<rparr>"

definition ReturningErrorCode :: kind where
  "ReturningErrorCode = \<lparr>namespace = runtime, class_name = ''ReturningErrorCode'',
     static_level = verbose, static_errorCode = 60040,
     members = [(''std::string_view'', ''m_error_code'')]\<rparr>"

definition ExpectedSubArrayTypeMissmatch :: kind where
  "ExpectedSubArrayTypeMissmatch = \<lparr>namespace = runtime, class_name = ''ExpectedSubArrayTypeMissmatch'',
     static_level = error, static_errorCode = 60041,
     members = [(''std::vector<size_t>'', ''m_position''), (''std::vector<::sqf::type>'', ''m_expected''), (''::sqf::type'', ''m_got'')]\<rparr>"

definition ExpectedSubArrayTypeMissmatchWeak :: kind where
  "ExpectedSubArrayTypeMissmatchWeak = \<lparr>namespace = runtime, class_name = ''ExpectedSubArrayTypeMissmatchWeak'',
     static_level = warning, static_errorCode = 60042,
     members = [(''std::vector<size_t>'', ''m_position''), (''std::vector<::sqf::type>'', ''m_expected''), (''::sqf::type'', ''m_got'')]\<rparr>"

definition ErrorMessage :: kind where
  "ErrorMessage = \<lparr>namespace = runtime, class_name = ''ErrorMessage'',
     static_level = error, static_errorCode = 60043,
     members = [(''std::string_view'', ''m_source''), (''std::string'', ''m_message'')]\<rparr>"

definition FileSystemDisabled :: kind where
  "FileSystemDisabled = \<lparr>namespace = runtime, class_name = ''FileSystemDisabled'',
     static_level = warning, static_errorCode = 60044,
     members = []\<rparr>"

definition NetworkingDisabled :: kind where
  "NetworkingDisabled = \<lparr>namespace = runtime, class_name = ''NetworkingDisabled'',
     static_level = warning, static_errorCode = 60045,
     members = []\<rparr>"

definition AlreadyConnected :: kind where
  "AlreadyConnected = \<lparr>namespace = runtime, class_name = ''AlreadyConnected'',
     static_level = error, static_errorCode = 60046,
     members = []\<rparr>"

definition NetworkingFormatMissmatch :: kind where
  "NetworkingFormatMissmatch = \<lparr>namespace = runtime, class_name = ''NetworkingFormatMissmatch'',
     static_level = error, static_errorCode = 60047,
     members = [(''std::string_view'', ''m_provided'')]\<rparr>"

definition FailedToEstablishConnection :: kind where
  "FailedToEstablishConnection = \<lparr>namespace = runtime, class_name = ''FailedToEstablishConnection'',
     static_level = warning, static_errorCode = 60048,
     members = []\<rparr>"

definition ExpectedArrayToHaveElements :: kind where
  "ExpectedArrayToHaveElements = \<lparr>namespace = runtime, class_name = ''ExpectedArrayToHaveElements'',
     static_level = error, static_errorCode = 60049,
     members = []\<rparr>"

definition ExpectedArrayToHaveElementsWeak :: kind where
  "ExpectedArrayToHaveElementsWeak = \<lparr>namespace = runtime, class_name = ''ExpectedArrayToHaveElementsWeak'',
     static_level = warning, static_errorCode = 60050,
     members = []\<rparr>"

definition ClipboardDisabled :: kind where
  "ClipboardDisabled = \<lparr>namespace = runtime, class_name = ''ClipboardDisabled'',
     static_level = warning, static_errorCode = 60051,
     members = []\<rparr>"

definition FailedToCopyToClipboard :: kind where
  "FailedToCopyToClipboard = \<lparr>namespace = runtime, class_name = ''FailedToCopyToClipboard'',
     static_level = warning, static_errorCode = 60052,
     members = []\<rparr>"

definition FormatInvalidPlaceholder :: kind where
  "FormatInvalidPlaceholder = \<lparr>namespace = runtime, class_name = ''FormatInvalidPlaceholder'',
     static_level = warning, static_errorCode = 60053,
     members = [(''char'', ''m_placeholder''), (''size_t'', ''m_index'')]\<rparr>"

definition ZeroDivisor :: kind where
  "ZeroDivisor = \<lparr>namespace = runtime, class_name = ''ZeroDivisor'',
     static_level = warning, static_errorCode = 60054,
     members = []\<rparr>"

definition MarkerNotExisting :: kind where
  "MarkerNotExisting = \<lparr>namespace = runtime, class_name = ''MarkerNotExisting'',
     static_level = warning, static_errorCode = 60055,
     members = [(''std::string_view'', ''m_marker_name'')]\<rparr>"

definition ReturningDefaultArray :: kind where
  "ReturningDefaultArray = \<lparr>namespace = runtime, class_name = ''ReturningDefaultArray'',
     static_level = verbose, static_errorCode = 60056,
     members = [(''size_t'', ''m_size'')]\<rparr>"

definition ReturningScalarZero :: kind where
  "ReturningScalarZero = \<lparr>namespace = runtime, class_name = ''ReturningScalarZero'',
     static_level = verbose, static_errorCode = 60057,
     members = []\<rparr>"

definition ExpectedNonNullValue :: kind where
  "ExpectedNonNullValue = \<lparr>namespace = runtime, class_name = ''ExpectedNonNullValue'',
     static_level = error, static_errorCode = 60058,
     members = []\<rparr>"

definition ExpectedNonNullValueWeak :: kind where
  "ExpectedNonNullValueWeak = \<lparr>namespace = runtime, class_name = ''ExpectedNonNullValueWeak'',
     static_level = warning, static_errorCode = 60059,
     members = []\<rparr>"

definition ConfigEntryNotFound :: kind where
  "ConfigEntryNotFound = \<lparr>namespace = runtime, class_name = ''ConfigEntryNotFound'',
     static_level = error, static_errorCode = 60060,
     members = [(''std::vector<std::string>'', ''m_config_path''), (''std::string'', ''m_config_name'')]\<rparr>"

definition ConfigEntryNotFoundWeak :: kind where
  "ConfigEntryNotFoundWeak = \<lparr>namespace = runtime, class_name = ''ConfigEntryNotFoundWeak'',
     static_level = warning, static_errorCode = 60061,
     members = [(''std::vector<std::string>'', ''m_config_path''), (''std::string'', ''m_config_name'')]\<rparr>"

definition ExpectedVehicle :: kind where
  "ExpectedVehicle = \<lparr>namespace = runtime, class_name = ''ExpectedVehicle'',
     static_level = error, static_errorCode = 60062,
     members = []\<rparr>"

definition ExpectedVehicleWeak :: kind where
  "ExpectedVehicleWeak = \<lparr>namespace = runtime, class_name = ''ExpectedVehicleWeak'',
     static_level = warning, static_errorCode = 60063,
     members = []\<rparr>"

definition ExpectedUnit :: kind where
  "ExpectedUnit = \<lparr>namespace = runtime, class_name = ''ExpectedUnit'',
     static_level = error, static_errorCode = 60064,
     members = []\<rparr>"

definition ExpectedUnitWeak :: kind where
  "ExpectedUnitWeak = \<lparr>namespace = runtime, class_name = ''ExpectedUnitWeak'',
     static_level = warning, static_errorCode = 60065,
     members = []\<rparr>"

definition ReturningFalse :: kind where
  "ReturningFalse = \<lparr>namespace = runtime, class_name = ''ReturningFalse'',
     static_level = verbose, static_errorCode = 60066,
     members = []\<rparr>"

definition MarkerAlreadyExisting :: kind where
  "MarkerAlreadyExisting = \<lparr>namespace = runtime, class_name = ''MarkerAlreadyExisting'',
     static_level = warning, static_errorCode = 60067,
     members = [(''std::string_view'', ''m_marker_name'')]\<rparr>"

definition InvalidMarkershape :: kind where
  "InvalidMarkershape = \<lparr>namespace = runtime, class_name = ''InvalidMarkershape'',
     static_level = warning, static_errorCode = 60067,
     members = [(''std::string_view'', ''m_shape_name'')]\<rparr>"

definition TypeMissmatch :: kind where
  "TypeMissmatch = \<lparr>namespace = runtime, class_name = ''TypeMissmatch'',
     static_level = error, static_errorCode = 60068,
     members = [(''::sqf::type'', ''m_expected''), (''::sqf::type'', ''m_got'')]\<rparr>"

definition TypeMissmatchWeak :: kind where
  "TypeMissmatchWeak = \<lparr>namespace = runtime, class_name = ''TypeMissmatchWeak'',
     static_level = warning, static_errorCode = 60069,
     members = [(''::sqf::type'', ''m_expected''), (''::sqf::type'', ''m_got'')]\<rparr>"

definition VariableNotFound :: kind where
  "VariableNotFound = \<lparr>namespace = runtime, class_name = ''VariableNotFound'',
     static_level = warning, static_errorCode = 60070,
     members = [(''std::string_view'', ''m_variable_name'')]\<rparr>"

definition StackCorruptionMissingValues :: kind where
  "StackCorruptionMissingValues = \<lparr>namespace = runtime, class_name = ''StackCorruptionMissingValues'',
     static_level = error, static_errorCode = 60071,
     members = [(''size_t'', ''m_expected''), (''size_t'', ''m_got'')]\<rparr>"

definition NoValueFoundForRightArgument :: kind where
  "NoValueFoundForRightArgument = \<lparr>namespace = runtime, class_name = ''NoValueFoundForRightArgument'',
     static_level = error, static_errorCode = 60072,
     members = []\<rparr>"

definition NoValueFoundForRightArgumentWeak :: kind where
  "NoValueFoundForRightArgumentWeak = \<lparr>namespace = runtime, class_name = ''NoValueFoundForRightArgumentWeak'',
     static_level = warning, static_errorCode = 60073,
     members = []\<rparr>"

definition NoValueFoundForLeftArgument :: kind where
  "NoValueFoundForLeftArgument = \<lparr>namespace = runtime, class_name = ''NoValueFoundForLeftArgument'',
     static_level = error, static_errorCode = 60074,
     members = []\<rparr>"

definition NoValueFoundForLeftArgumentWeak :: kind where
  "NoValueFoundForLeftArgumentWeak = \<lparr>namespace = runtime, class_name = ''NoValueFoundForLeftArgumentWeak'',
     static_level = warning, static_errorCode = 60075,
     members = []\<rparr>"

definition UnknownInputTypeCombinationBinary :: kind where
  "UnknownInputTypeCombinationBinary = \<lparr>namespace = runtime, class_name = ''UnknownInputTypeCombinationBinary'',
     static_level = error, static_errorCode = 60076,
     members = [(''std::string_view'', ''m_operator''), (''::sqf::type'', ''m_left_got''), (''::sqf::type'', ''m_right_got'')]\<rparr>"

definition FoundNoValue :: kind where
  "FoundNoValue = \<lparr>namespace = runtime, class_name = ''FoundNoValue'',
     static_level = error, static_errorCode = 60077,
     members = []\<rparr>"

definition CallstackFoundNoValue :: kind where
  "CallstackFoundNoValue = \<lparr>namespace = runtime, class_name = ''CallstackFoundNoValue'',
     static_level = error, static_errorCode = 60078,
     members = [(''std::string_view'', ''m_callstack_name'')]\<rparr>"

definition CallstackFoundNoValueWeak :: kind where
  "CallstackFoundNoValueWeak = \<lparr>namespace = runtime, class_name = ''CallstackFoundNoValueWeak'',
     static_level = warning, static_errorCode = 60079,
     members = [(''std::string_view'', ''m_callstack_name'')]\<rparr>"

definition GroupNotEmpty :: kind where
  "GroupNotEmpty = \<lparr>namespace = runtime, class_name = ''GroupNotEmpty'',
     static_level = warning, static_errorCode = 60080,
     members = [(''std::string_view'', ''m_group_name'')]\<rparr>"

definition ForStepVariableTypeMissmatch :: kind where
  "ForStepVariableTypeMissmatch = \<lparr>namespace = runtime, class_name = ''ForStepVariableTypeMissmatch'',
     static_level = warning, static_errorCode = 60081,
     members = [(''std::string_view'', ''m_variable_name''), (''::sqf::type'', ''m_expected''), (''::sqf::type'', ''m_got'')]\<rparr>"

definition ForStepNoWorkShouldBeDone :: kind where
  "ForStepNoWorkShouldBeDone = \<lparr>namespace = runtime, class_name = ''ForStepNoWorkShouldBeDone'',
     static_level = warning, static_errorCode = 60082,
     members = [(''double'', ''m_step''), (''double'', ''m_from''), (''double'', ''m_to'')]\<rparr>"

subsection \<open>The catalog\<close>

text \<open>Every message class of the header, in the order of declaration.\<close>

definition catalog :: "kind list" where
  "catalog = [
     ArgCountMissmatch, UnexpectedDataAfterInclude, RecursiveInclude, IncludeFailed,
     MacroDefinedTwice, MacroNotFound, UnexpectedIfdef, UnexpectedIfndef, UnexpectedElse,
     UnexpectedEndif, MissingEndif, UnknownInstruction, EmptyArgument, ExpectedSemicolon,
     NoViableAlternativeInstructions, NoViableAlternativeArg, ExpectedEndStatement,
     ExpectedCallNular, ExpectedNularOperator, UnknownNularOperator, ExpectedCallUnary,
     ExpectedUnaryOperator, UnknownUnaryOperator, ExpectedCallBinary, ExpectedBinaryOperator,
     UnknownBinaryOperator, ExpectedAssignTo, ExpectedVariableName, ExpectedAssignToLocal,
     ExpectedGetVariable, ExpectedMakeArray, ExpectedInteger, ExpectedPush, ExpectedTypeName,
     NumberOutOfRange, sqf_ExpectedStatementTerminator, NoViableAlternativeStatement,
     MissingUnderscoreOnPrivateVariable, ExpectedBinaryExpression, MissingRightArgument,
     sqf_MissingRoundClosingBracket, sqf_MissingCurlyClosingBracket,
     sqf_MissingSquareClosingBracket, NoViableAlternativePrimaryExpression, EmptyNumber,
     ExpectedSQF, EndOfFile, config_ExpectedStatementTerminator, NoViableAlternativeNode,
     ExpectedIdentifier, config_MissingRoundClosingBracket, MissingCurlyOpeningBracket,
     config_MissingCurlyClosingBracket, config_MissingSquareClosingBracket, MissingEqualSign,
     ExpectedArray, ExpectedValue, NoViableAlternativeValue, EndOfFileNotReached,
     UnassignedVariable, Stacktrace, MaximumInstructionCountReached,
     ExpectedArraySizeMissmatch, ExpectedArraySizeMissmatchWeak,
     ExpectedMinimumArraySizeMissmatch, ExpectedMinimumArraySizeMissmatchWeak,
     ExpectedArrayTypeMissmatch, ExpectedArrayTypeMissmatchWeak, IndexOutOfRange,
     IndexOutOfRangeWeak, NegativeIndex, NegativeIndexWeak, IndexEqualsRange, ReturningNil,
     ReturningEmptyArray, NegativeSize, NegativeSizeWeak, ArrayRecursion, InfoMessage,
     SuspensionDisabled, SuspensionInUnscheduledEnvironment, ReturningConfigNull, AssertFailed,
     StartIndexExceedsToIndex, StartIndexExceedsToIndexWeak, MagicVariableTypeMissmatch,
     ScriptHandleAlreadyTerminated, ScriptHandleAlreadyFinished, ExtensionLoaded,
     ExtensionNotTerminatingVersionString, ExtensionNotTerminatingCallExtensionBufferString,
     ExtensionNotTerminatingCallExtensionArgBufferString, LibraryNameContainsPath,
     ReturningEmptyString, ExtensionRuntimeError, FileNotFound, ScopeNameAlreadySet,
     ScriptNameAlreadySet, ReturningEmptyScriptHandle, ReturningErrorCode,
     ExpectedSubArrayTypeMissmatch, ExpectedSubArrayTypeMissmatchWeak, ErrorMessage,
     FileSystemDisabled, NetworkingDisabled, AlreadyConnected, NetworkingFormatMissmatch,
     FailedToEstablishConnection, ExpectedArrayToHaveElements, ExpectedArrayToHaveElementsWeak,
     ClipboardDisabled, FailedToCopyToClipboard, FormatInvalidPlaceholder, ZeroDivisor,
     MarkerNotExisting, ReturningDefaultArray, ReturningScalarZero, ExpectedNonNullValue,
     ExpectedNonNullValueWeak, ConfigEntryNotFound, ConfigEntryNotFoundWeak, ExpectedVehicle,
     ExpectedVehicleWeak, ExpectedUnit, ExpectedUnitWeak, ReturningFalse,
     MarkerAlreadyExisting, InvalidMarkershape, TypeMissmatch, TypeMissmatchWeak,
     VariableNotFound, StackCorruptionMissingValues, NoValueFoundForRightArgument,
     NoValueFoundForRightArgumentWeak, NoValueFoundForLeftArgument,
     NoValueFoundForLeftArgumentWeak, UnknownInputTypeCombinationBinary, FoundNoValue,
     CallstackFoundNoValue, CallstackFoundNoValueWeak, GroupNotEmpty,
     ForStepVariableTypeMissmatch, ForStepNoWorkShouldBeDone
   ]"


section \<open>Code ranges of the namespaces\<close>

text \<open>
  The range of codes that the specification gives each namespace, as the
  thousands it names: preprocessor \<open>10xxx\<close>, assembly \<open>20xxx\<close>, script parser
  \<open>30xxx\<close>, config parser \<open>40xxx\<close>, linting \<open>50xxx\<close>, runtime \<open>60xxx\<close>.
\<close>

fun domain_prefix :: "domain \<Rightarrow> nat" where
  "domain_prefix preprocessor = 10"
| "domain_prefix assembly = 20"
| "domain_prefix sqf = 30"
| "domain_prefix config = 40"
| "domain_prefix linting = 50"
| "domain_prefix runtime = 60"

section \<open>Strong and Weak siblings\<close>

text \<open>
  The header names the advisory sibling of a class \<^verbatim>\<open>X\<close> in the same namespace
  \<^verbatim>\<open>XWeak\<close>.
\<close>

definition is_Weak :: "kind \<Rightarrow> bool" where
  "is_Weak k = (drop (length (class_name k) - 4) (class_name k) = ''Weak'')"

definition is_twin :: "kind \<Rightarrow> kind \<Rightarrow> bool" where
  "is_twin s w = (namespace w = namespace s \<and> class_name w = class_name s @ ''Weak'')"

text \<open>The pairs of the header: each class named \<^verbatim>\<open>XWeak\<close>, after its class \<^verbatim>\<open>X\<close>.\<close>

definition twins :: "(kind \<times> kind) list" where
  "twins = [
     (ExpectedArraySizeMissmatch, ExpectedArraySizeMissmatchWeak),
     (ExpectedMinimumArraySizeMissmatch, ExpectedMinimumArraySizeMissmatchWeak),
     (ExpectedArrayTypeMissmatch, ExpectedArrayTypeMissmatchWeak),
     (IndexOutOfRange, IndexOutOfRangeWeak),
     (NegativeIndex, NegativeIndexWeak),
     (NegativeSize, NegativeSizeWeak),
     (StartIndexExceedsToIndex, StartIndexExceedsToIndexWeak),
     (ExpectedSubArrayTypeMissmatch, ExpectedSubArrayTypeMissmatchWeak),
     (ExpectedArrayToHaveElements, ExpectedArrayToHaveElementsWeak),
     (ExpectedNonNullValue, ExpectedNonNullValueWeak),
     (ConfigEntryNotFound, ConfigEntryNotFoundWeak),
     (ExpectedVehicle, ExpectedVehicleWeak),
     (ExpectedUnit, ExpectedUnitWeak),
     (TypeMissmatch, TypeMissmatchWeak),
     (NoValueFoundForRightArgument, NoValueFoundForRightArgumentWeak),
     (NoValueFoundForLeftArgument, NoValueFoundForLeftArgumentWeak),
     (CallstackFoundNoValue, CallstackFoundNoValueWeak)
   ]"

section \<open>The console sink\<close>

text \<open>
  \<^verbatim>\<open>class StdOutLogger : public Logger {
  public:
    StdOutLogger() : Logger() {}
    virtual void log(loglevel, std::string_view message) override;
  };\<close>

  The state of the console logger is the gates it inherits and the text written
  to the standard output so far.
\<close>

record StdOutLogger = Logger +
  cout :: string

definition StdOutLogger_ctor :: StdOutLogger where
  "StdOutLogger_ctor = Logger.extend Logger_ctor (StdOutLogger.fields [])"

text \<open>
  Modelled from the spec: the body of \<^verbatim>\<open>StdOutLogger::log\<close> is in the
  implementation file, which is not among the sources; the header only declares
  it. The specification describes the default console sink as ``producing lines
  of the form: bracketed severity tag, one space, rendered text, newline'', and
  the sink primitive as making (level, text) observable whenever invoked,
  regardless of gate state.
\<close>

definition StdOutLogger_log :: "loglevel \<Rightarrow> string \<Rightarrow> StdOutLogger \<Rightarrow> StdOutLogger" where
  "StdOutLogger_log lvl message lg =
     lg\<lparr>cout := cout lg @ loglevelstring lvl @ '' '' @ message @ [CHR 0x0A]\<rparr>"

section \<open>Rendering\<close>

text \<open>
  Every class declares \<^verbatim>\<open>std::string formatMessage() const override\<close>; all the
  bodies are in the implementation file, which is not among the sources.
\<close>

text \<open>
  Modelled from the spec: which wording a class renders with, in place of the
  missing bodies of \<^verbatim>\<open>formatMessage\<close>. The specification has Strong and Weak
  siblings ``sharing fields/wording but distinct severity+code'', as ``one
  parametrized template instantiated twice (varying only severity and code)''.
  A wording template therefore belongs to a condition; the condition of a class
  is its namespace and its name without the suffix \<^verbatim>\<open>Weak\<close>.
\<close>

definition condition :: "kind \<Rightarrow> domain \<times> string" where
  "condition k =
     (namespace k,
      if is_Weak k then take (length (class_name k) - 4) (class_name k) else class_name k)"

text \<open>
  Modelled from the spec: \<^verbatim>\<open>formatMessage\<close>, whose bodies are missing. The
  specification fixes no wording; it says that rendering is pure and
  deterministic, a function of the constructed message alone. The table of wording
  templates is a parameter, and rendering applies the template of the condition
  of the object's class to the location and the member values.
\<close>

definition formatMessage ::
  "(domain \<times> string \<Rightarrow> LogLocationInfo \<Rightarrow> 'p \<Rightarrow> string) \<Rightarrow> 'p LogMessage \<Rightarrow> string" where
  "formatMessage wording m = wording (condition (dynamic_type m)) (location m) (payload m)"

section \<open>The emitter capability\<close>

text \<open>
  \<^verbatim>\<open>class CanLog {
    Logger& m_logger;
  protected:
    Logger& get_logger() { return m_logger; }
    void log(LogMessageBase& message) const;
    void log(LogMessageBase&& message) const;
  public:
    CanLog(Logger& logger) : m_logger(logger) {}
  };\<close>
\<close>

text \<open>
  Modelled from the spec: the body of \<^verbatim>\<open>CanLog::log\<close> is in the implementation
  file, which is not among the sources; the header only declares it. The
  specification: emit ``must: read the message's fixed severity; consult the bound
  Logger's gate for that severity; if open, call render() and forward (severity,
  text) to the sink; if closed, do nothing''.

  The two virtual functions it calls are parameters: \<open>sink\<close> is the \<^verbatim>\<open>log\<close> of the
  bound logger and \<open>render\<close> is the \<^verbatim>\<open>formatMessage\<close> of the message. The state is
  the bound logger together with the number of calls of \<open>render\<close> made so far.
  Reading a gate that does not exist is undefined behaviour, \<open>None\<close>.
\<close>

definition CanLog_log ::
  "(loglevel \<Rightarrow> string \<Rightarrow> 'a Logger_scheme \<Rightarrow> 'a Logger_scheme) \<Rightarrow> ('m LogMessageBase_scheme \<Rightarrow> string)
     \<Rightarrow> 'm LogMessageBase_scheme \<Rightarrow> 'a Logger_scheme \<times> nat \<Rightarrow> ('a Logger_scheme \<times> nat) option" where
  "CanLog_log sink render m st =
     (case isEnabled (fst st) (getLevel m) of
        None \<Rightarrow> None
      | Some en \<Rightarrow>
          if en then Some (sink (getLevel m) (render m) (fst st), Suc (snd st))
          else Some st)"

section \<open>Unfolding the enumerators and the catalog\<close>

lemmas loglevel_defs = fatal_def error_def warning_def info_def verbose_def trace_def

lemmas kind_defs =
  ArgCountMissmatch_def UnexpectedDataAfterInclude_def RecursiveInclude_def IncludeFailed_def
  MacroDefinedTwice_def MacroNotFound_def UnexpectedIfdef_def UnexpectedIfndef_def
  UnexpectedElse_def UnexpectedEndif_def MissingEndif_def UnknownInstruction_def
  EmptyArgument_def ExpectedSemicolon_def NoViableAlternativeInstructions_def
  NoViableAlternativeArg_def ExpectedEndStatement_def ExpectedCallNular_def
  ExpectedNularOperator_def UnknownNularOperator_def ExpectedCallUnary_def
  ExpectedUnaryOperator_def UnknownUnaryOperator_def ExpectedCallBinary_def
  ExpectedBinaryOperator_def UnknownBinaryOperator_def ExpectedAssignTo_def
  ExpectedVariableName_def ExpectedAssignToLocal_def ExpectedGetVariable_def
  ExpectedMakeArray_def ExpectedInteger_def ExpectedPush_def ExpectedTypeName_def
  NumberOutOfRange_def sqf_ExpectedStatementTerminator_def NoViableAlternativeStatement_def
  MissingUnderscoreOnPrivateVariable_def ExpectedBinaryExpression_def MissingRightArgument_def
  sqf_MissingRoundClosingBracket_def sqf_MissingCurlyClosingBracket_def
  sqf_MissingSquareClosingBracket_def NoViableAlternativePrimaryExpression_def EmptyNumber_def
  ExpectedSQF_def EndOfFile_def config_ExpectedStatementTerminator_def
  NoViableAlternativeNode_def ExpectedIdentifier_def config_MissingRoundClosingBracket_def
  MissingCurlyOpeningBracket_def config_MissingCurlyClosingBracket_def
  config_MissingSquareClosingBracket_def MissingEqualSign_def ExpectedArray_def
  ExpectedValue_def NoViableAlternativeValue_def EndOfFileNotReached_def UnassignedVariable_def
  Stacktrace_def MaximumInstructionCountReached_def ExpectedArraySizeMissmatch_def
  ExpectedArraySizeMissmatchWeak_def ExpectedMinimumArraySizeMissmatch_def
  ExpectedMinimumArraySizeMissmatchWeak_def ExpectedArrayTypeMissmatch_def
  ExpectedArrayTypeMissmatchWeak_def IndexOutOfRange_def IndexOutOfRangeWeak_def
  NegativeIndex_def NegativeIndexWeak_def IndexEqualsRange_def ReturningNil_def
  ReturningEmptyArray_def NegativeSize_def NegativeSizeWeak_def ArrayRecursion_def
  InfoMessage_def SuspensionDisabled_def SuspensionInUnscheduledEnvironment_def
  ReturningConfigNull_def AssertFailed_def StartIndexExceedsToIndex_def
  StartIndexExceedsToIndexWeak_def MagicVariableTypeMissmatch_def
  ScriptHandleAlreadyTerminated_def ScriptHandleAlreadyFinished_def ExtensionLoaded_def
  ExtensionNotTerminatingVersionString_def ExtensionNotTerminatingCallExtensionBufferString_def
  ExtensionNotTerminatingCallExtensionArgBufferString_def LibraryNameContainsPath_def
  ReturningEmptyString_def ExtensionRuntimeError_def FileNotFound_def ScopeNameAlreadySet_def
  ScriptNameAlreadySet_def ReturningEmptyScriptHandle_def ReturningErrorCode_def
  ExpectedSubArrayTypeMissmatch_def ExpectedSubArrayTypeMissmatchWeak_def ErrorMessage_def
  FileSystemDisabled_def NetworkingDisabled_def AlreadyConnected_def
  NetworkingFormatMissmatch_def FailedToEstablishConnection_def ExpectedArrayToHaveElements_def
  ExpectedArrayToHaveElementsWeak_def ClipboardDisabled_def FailedToCopyToClipboard_def
  FormatInvalidPlaceholder_def ZeroDivisor_def MarkerNotExisting_def ReturningDefaultArray_def
  ReturningScalarZero_def ExpectedNonNullValue_def ExpectedNonNullValueWeak_def
  ConfigEntryNotFound_def ConfigEntryNotFoundWeak_def ExpectedVehicle_def
  ExpectedVehicleWeak_def ExpectedUnit_def ExpectedUnitWeak_def ReturningFalse_def
  MarkerAlreadyExisting_def InvalidMarkershape_def TypeMissmatch_def TypeMissmatchWeak_def
  VariableNotFound_def StackCorruptionMissingValues_def NoValueFoundForRightArgument_def
  NoValueFoundForRightArgumentWeak_def NoValueFoundForLeftArgument_def
  NoValueFoundForLeftArgumentWeak_def UnknownInputTypeCombinationBinary_def FoundNoValue_def
  CallstackFoundNoValue_def CallstackFoundNoValueWeak_def GroupNotEmpty_def
  ForStepVariableTypeMissmatch_def ForStepNoWorkShouldBeDone_def

section \<open>Gates\<close>

lemma static_cast_size_t_loglevels:
  "static_cast_size_t fatal = 0" "static_cast_size_t error = 1" "static_cast_size_t warning = 2"
  "static_cast_size_t info = 3" "static_cast_size_t verbose = 4" "static_cast_size_t trace = 5"
  by (simp_all add: static_cast_size_t_def loglevel_defs)

lemma in_loglevels_iff:
  "l \<in> set loglevels \<longleftrightarrow>
     l = fatal \<or> l = error \<or> l = warning \<or> l = info \<or> l = verbose \<or> l = trace"
  by (auto simp: loglevels_def)

lemma static_cast_size_t_less_6: "l \<in> set loglevels \<Longrightarrow> static_cast_size_t l < 6"
  by (auto simp: in_loglevels_iff static_cast_size_t_loglevels)

lemma static_cast_size_t_inject:
  assumes "l \<in> set loglevels" and "l' \<in> set loglevels"
    and "static_cast_size_t l = static_cast_size_t l'"
  shows "l = l'"
  using assms by (auto simp: in_loglevels_iff static_cast_size_t_loglevels)

text \<open>
  The constructor makes six gates, and no call of the class changes their number:
  every logger that the header's operations can reach has exactly six.
\<close>

lemma length_Logger_ctor: "length (enabledWarningLevels Logger_ctor) = 6"
  by (simp add: Logger_ctor_def)

lemma length_setEnabled:
  "setEnabled lg l b = Some lg' \<Longrightarrow> length (enabledWarningLevels lg') = length (enabledWarningLevels lg)"
  by (auto simp: setEnabled_def Let_def split: if_splits)

lemma length_Logger_exec:
  "Logger_exec c lg = Some lg' \<Longrightarrow> length (enabledWarningLevels lg') = length (enabledWarningLevels lg)"
  by (cases c) (auto simp: length_setEnabled split: option.splits)

text \<open>On such a logger each of the six gates can be read.\<close>

lemma isEnabled_defined:
  assumes "length (enabledWarningLevels lg) = 6" and "l \<in> set loglevels"
  shows "isEnabled lg l = Some (enabledWarningLevels lg ! static_cast_size_t l)"
  using assms static_cast_size_t_less_6 [of l] by (simp add: isEnabled_def Let_def)

text \<open>
  C6. On a freshly constructed logger, \<^verbatim>\<open>isEnabled\<close> returns true for each of the
  six severity levels: every gate is open before any call of \<^verbatim>\<open>setEnabled\<close>.
\<close>

theorem isEnabled_Logger_ctor:
  "\<forall>l \<in> set loglevels. isEnabled Logger_ctor l = Some True"
  by (simp add: loglevels_def loglevel_defs isEnabled_def Logger_ctor_def static_cast_size_t_def)

theorem isEnabled_Logger_ctor_witness:
  "warning \<in> set loglevels \<and> isEnabled Logger_ctor warning = Some True"
proof -
  have "warning \<in> set loglevels"
    by (simp add: loglevels_def)
  with isEnabled_Logger_ctor show ?thesis by blast
qed

text \<open>
  C4. On a logger with its six gates, for severity levels \<open>l\<close> and \<open>l'\<close> and a
  boolean \<open>b\<close>: \<^verbatim>\<open>setEnabled(l, b)\<close> returns, afterwards \<^verbatim>\<open>isEnabled(l)\<close> is \<open>b\<close>,
  and for \<open>l'\<close> other than \<open>l\<close> the value of \<^verbatim>\<open>isEnabled(l')\<close> is what it was
  before. No other call that the class defines changes a gate.
\<close>

theorem setEnabled_isEnabled:
  assumes "length (enabledWarningLevels lg) = 6"
    and "l \<in> set loglevels" and "l' \<in> set loglevels"
  shows "(\<exists>lg'. setEnabled lg l b = Some lg'
            \<and> isEnabled lg' l = Some b
            \<and> (l' \<noteq> l \<longrightarrow> isEnabled lg' l' = isEnabled lg l'))
         \<and> (\<forall>c lg'. Logger_exec c lg = Some lg' \<and> (\<forall>x y. c \<noteq> Call_setEnabled x y)
              \<longrightarrow> enabledWarningLevels lg' = enabledWarningLevels lg)"
proof -
  let ?i = "static_cast_size_t l"
  let ?lg' = "lg\<lparr>enabledWarningLevels := (enabledWarningLevels lg)[?i := b]\<rparr>"
  from assms(1,2) have i: "?i < length (enabledWarningLevels lg)"
    using static_cast_size_t_less_6 by simp
  then have s: "setEnabled lg l b = Some ?lg'"
    by (simp add: setEnabled_def Let_def)
  from i have r: "isEnabled ?lg' l = Some b"
    by (simp add: isEnabled_def Let_def)
  have f: "isEnabled ?lg' l' = isEnabled lg l'" if "l' \<noteq> l"
  proof -
    from that assms(2,3) have "?i \<noteq> static_cast_size_t l'"
      using static_cast_size_t_inject by blast
    then show ?thesis
      by (simp add: isEnabled_def Let_def)
  qed
  have o: "enabledWarningLevels lg' = enabledWarningLevels lg"
    if "Logger_exec c lg = Some lg'" and "\<forall>x y. c \<noteq> Call_setEnabled x y" for c lg'
    using that by (cases c) (auto split: option.splits)
  from s r f o show ?thesis by blast
qed

theorem setEnabled_isEnabled_witness:
  "length (enabledWarningLevels Logger_ctor) = 6
   \<and> warning \<in> set loglevels \<and> error \<in> set loglevels \<and> error \<noteq> warning
   \<and> (\<exists>lg'. setEnabled Logger_ctor warning False = Some lg'
          \<and> isEnabled lg' warning = Some False
          \<and> isEnabled lg' error = isEnabled Logger_ctor error)
   \<and> Logger_exec (Call_isEnabled fatal) Logger_ctor = Some Logger_ctor"
proof -
  have a: "length (enabledWarningLevels Logger_ctor) = 6"
    by (rule length_Logger_ctor)
  have b: "warning \<in> set loglevels" and c: "error \<in> set loglevels"
    by (simp_all add: loglevels_def)
  have d: "error \<noteq> warning"
    by (simp add: loglevel_defs)
  have e: "Logger_exec (Call_isEnabled fatal) Logger_ctor = Some Logger_ctor"
    by (simp add: isEnabled_def Logger_ctor_def static_cast_size_t_loglevels)
  from setEnabled_isEnabled [OF a b c, of False] a b c d e show ?thesis
    by simp
qed

section \<open>Severity tags\<close>

text \<open>
  C10. \<^verbatim>\<open>Logger::loglevelstring\<close> returns for the six enumerators the tags
  \<^verbatim>\<open>[FAT]\<close>, \<^verbatim>\<open>[ERR]\<close>, \<^verbatim>\<open>[WRN]\<close>, \<^verbatim>\<open>[INF]\<close>, \<^verbatim>\<open>[VBS]\<close>, \<^verbatim>\<open>[TRC]\<close>, which are pairwise
  distinct; for every other value of the enumeration type it returns \<^verbatim>\<open>[???]\<close>;
  and every result has five characters.
\<close>

theorem loglevelstring_total:
  "map loglevelstring loglevels = [''[FAT]'', ''[ERR]'', ''[WRN]'', ''[INF]'', ''[VBS]'', ''[TRC]'']
   \<and> distinct (map loglevelstring loglevels)
   \<and> (\<forall>l. l \<notin> set loglevels \<longrightarrow> loglevelstring l = ''[???]'')
   \<and> (\<forall>l. length (loglevelstring l) = 5)"
  by (simp add: loglevelstring_def loglevels_def loglevel_defs)

theorem loglevelstring_total_witness:
  "(6::int) \<notin> set loglevels \<and> loglevelstring 6 = ''[???]''
   \<and> (- 1::int) \<notin> set loglevels \<and> loglevelstring (- 1) = ''[???]''"
proof -
  have a: "(6::int) \<notin> set loglevels" and b: "(- 1::int) \<notin> set loglevels"
    by (simp_all add: loglevels_def loglevel_defs)
  from loglevelstring_total a b show ?thesis by blast
qed

section \<open>Severity and code of a message\<close>

lemma getLevel_construct: "getLevel (construct k loc p) = static_level k"
  by (simp add: getLevel_def construct_def LogMessageBase.extend_def LogMessage.fields_def
      LogMessageBase_ctor_def)

lemma getErrorCode_construct: "getErrorCode (construct k loc p) = static_errorCode k"
  by (simp add: getErrorCode_def construct_def LogMessageBase.extend_def LogMessage.fields_def
      LogMessageBase_ctor_def)

text \<open>
  C7. For every message class and whatever location and member values an object of
  it is constructed with, \<^verbatim>\<open>getLevel()\<close> and \<^verbatim>\<open>getErrorCode()\<close> return the two
  constants of the class: two objects of one class agree on both, whatever their
  payloads.
\<close>

theorem getLevel_getErrorCode_fixed:
  "getLevel (construct k loc p) = static_level k
   \<and> getErrorCode (construct k loc p) = static_errorCode k
   \<and> getLevel (construct k loc' p') = getLevel (construct k loc p)
   \<and> getErrorCode (construct k loc' p') = getErrorCode (construct k loc p)"
  unfolding getLevel_def getErrorCode_def construct_def LogMessageBase_ctor_def
  by (simp add: LogMessageBase.extend_def LogMessage.fields_def)

text \<open>The fixed severity of every class of the catalog is one of the six enumerators.\<close>

lemma catalog_levels: "list_all (\<lambda>k. static_level k \<in> set loglevels) catalog"
  unfolding catalog_def kind_defs by (simp add: loglevels_def)

section \<open>Codes\<close>

lemma length_catalog: "length catalog = 143"
  unfolding catalog_def by simp

text \<open>The namespace and the code of every class, in catalog order.\<close>

lemma catalog_table:
  "map (\<lambda>k. (namespace k, static_errorCode k)) catalog =
     map (Pair preprocessor) [10001 ..< 10014] @ map (Pair assembly) [20001 ..< 20023]
     @ map (Pair sqf) [30001 ..< 30013] @ map (Pair config) [40001 ..< 40013]
     @ map (Pair linting) [50001 ..< 50002]
     @ map (Pair runtime) ([60001 ..< 60068] @ [60067 ..< 60083])"
  unfolding catalog_def kind_defs by (simp add: upt_rec)

text \<open>
  C8. The code of every class of the catalog lies in the thousand of its
  namespace (preprocessor 10xxx, assembly 20xxx, script parser 30xxx, config parser
  40xxx, linting 50xxx, runtime 60xxx), and between 10001 and 60082.
\<close>

theorem codes_in_range:
  "\<forall>k \<in> set catalog. static_errorCode k div 1000 = domain_prefix (namespace k)
      \<and> 10001 \<le> static_errorCode k \<and> static_errorCode k \<le> 60082"
proof -
  have "\<forall>x \<in> set (map (\<lambda>k. (namespace k, static_errorCode k)) catalog).
          snd x div 1000 = domain_prefix (fst x) \<and> 10001 \<le> snd x \<and> snd x \<le> 60082"
    unfolding catalog_table by auto
  then show ?thesis by simp
qed

theorem codes_in_range_witness:
  "ForStepNoWorkShouldBeDone \<in> set catalog
   \<and> static_errorCode ForStepNoWorkShouldBeDone div 1000
       = domain_prefix (namespace ForStepNoWorkShouldBeDone)
   \<and> 10001 \<le> static_errorCode ForStepNoWorkShouldBeDone
   \<and> static_errorCode ForStepNoWorkShouldBeDone \<le> 60082"
proof -
  have "ForStepNoWorkShouldBeDone \<in> set catalog"
    unfolding catalog_def by simp
  with codes_in_range show ?thesis by blast
qed

text \<open>
  C1. Two distinct classes of the catalog ought to have different codes. The
  header gives \<^verbatim>\<open>runtime::MarkerAlreadyExisting\<close> and \<^verbatim>\<open>runtime::InvalidMarkershape\<close>
  the same code 60067, so the codes of the catalog are not pairwise distinct.
\<close>

theorem MarkerAlreadyExisting_InvalidMarkershape_code:
  "MarkerAlreadyExisting \<in> set catalog \<and> InvalidMarkershape \<in> set catalog
   \<and> MarkerAlreadyExisting \<noteq> InvalidMarkershape
   \<and> static_errorCode MarkerAlreadyExisting = 60067
   \<and> static_errorCode InvalidMarkershape = 60067
   \<and> \<not> distinct (map static_errorCode catalog)"
proof -
  have m: "MarkerAlreadyExisting \<in> set catalog \<and> InvalidMarkershape \<in> set catalog"
    unfolding catalog_def by simp
  have d: "MarkerAlreadyExisting \<noteq> InvalidMarkershape"
    by (simp add: MarkerAlreadyExisting_def InvalidMarkershape_def)
  have c: "static_errorCode MarkerAlreadyExisting = 60067 \<and> static_errorCode InvalidMarkershape = 60067"
    by (simp add: MarkerAlreadyExisting_def InvalidMarkershape_def)
  have "\<not> inj_on static_errorCode (set catalog)"
  proof
    assume "inj_on static_errorCode (set catalog)"
    from inj_onD [OF this, of MarkerAlreadyExisting InvalidMarkershape] m c
    have "MarkerAlreadyExisting = InvalidMarkershape"
      by simp
    with d show False ..
  qed
  then have "\<not> distinct (map static_errorCode catalog)"
    by (simp add: distinct_map)
  with m d c show ?thesis by simp
qed

text \<open>
  That is the only collision: without \<^verbatim>\<open>InvalidMarkershape\<close> the codes of the
  catalog are pairwise distinct.
\<close>

lemma other_codes_distinct:
  "distinct (map static_errorCode (remove1 InvalidMarkershape catalog))"
proof -
  have "map static_errorCode (remove1 InvalidMarkershape catalog) =
     [10001 ..< 10014] @ [20001 ..< 20023] @ [30001 ..< 30013] @ [40001 ..< 40013] @ [50001]
     @ [60001 ..< 60083]"
    unfolding catalog_def kind_defs by (simp add: upt_rec)
  then show ?thesis by auto
qed

section \<open>Strong and Weak siblings\<close>

text \<open>The classes whose name ends in \<^verbatim>\<open>Weak\<close> are the second components of \<open>twins\<close>.\<close>

lemma Weak_kinds: "filter is_Weak catalog = map snd twins"
  unfolding catalog_def twins_def kind_defs by (simp add: is_Weak_def)

text \<open>A namespace declares no class name twice.\<close>

lemma distinct_class_names: "distinct (map (\<lambda>k. (namespace k, class_name k)) catalog)"
  unfolding catalog_def kind_defs by simp

lemma twins_props:
  "list_all (\<lambda>(s, w). is_twin s w \<and> \<not> is_Weak s \<and> is_Weak w \<and> members w = members s
      \<and> static_level s = error \<and> static_level w = warning
      \<and> static_errorCode w = Suc (static_errorCode s)) twins"
  unfolding twins_def kind_defs by (simp add: is_twin_def is_Weak_def)

lemma twins_in_catalog: "list_all (\<lambda>(s, w). s \<in> set catalog \<and> w \<in> set catalog) twins"
  unfolding twins_def catalog_def by simp

lemma is_twin_is_Weak: "is_twin s w \<Longrightarrow> is_Weak w"
  by (simp add: is_twin_def is_Weak_def)

text \<open>
  Every pair of classes of the catalog that the naming makes siblings is one of
  the listed pairs.
\<close>

lemma is_twin_in_twins:
  assumes "s \<in> set catalog" and "w \<in> set catalog" and "is_twin s w"
  shows "(s, w) \<in> set twins"
proof -
  from assms(2,3) have "w \<in> set (filter is_Weak catalog)"
    by (simp add: is_twin_is_Weak)
  then obtain s' where m: "(s', w) \<in> set twins"
    unfolding Weak_kinds by auto
  with twins_props twins_in_catalog have t: "is_twin s' w" and c: "s' \<in> set catalog"
    by (auto simp: list_all_iff)
  from t assms(3) have "(namespace s', class_name s') = (namespace s, class_name s)"
    by (simp add: is_twin_def)
  with distinct_class_names c assms(1) have "s' = s"
    by (auto simp: distinct_map dest: inj_onD)
  with m show ?thesis by simp
qed

lemma twins_condition: "(s, w) \<in> set twins \<Longrightarrow> condition w = condition s"
  using twins_props by (auto simp: list_all_iff condition_def is_twin_def)

lemma formatMessage_construct:
  "formatMessage wording (construct k loc p) = wording (condition k) loc p"
  by (simp add: formatMessage_def construct_def LogMessageBase.extend_def LogMessage.fields_def
      LogMessageBase_ctor_def)

text \<open>
  C5. For every pair of classes \<^verbatim>\<open>X\<close> and \<^verbatim>\<open>XWeak\<close> of the catalog: the data members
  are the same, the severity of \<^verbatim>\<open>X\<close> is error and that of \<^verbatim>\<open>XWeak\<close> is warning,
  the codes differ, and for one location and one payload both render the same
  text, so that the lines of the console sink differ in the severity tag only.
\<close>

theorem Strong_Weak_siblings:
  assumes "s \<in> set catalog" and "w \<in> set catalog" and "is_twin s w"
  shows "members w = members s
     \<and> static_level s = error \<and> static_level w = warning
     \<and> static_errorCode w \<noteq> static_errorCode s
     \<and> formatMessage wording (construct w loc p) = formatMessage wording (construct s loc p)
     \<and> cout (StdOutLogger_log (getLevel (construct s loc p))
              (formatMessage wording (construct s loc p)) lg)
         = cout lg @ ''[ERR] '' @ formatMessage wording (construct s loc p) @ [CHR 0x0A]
     \<and> cout (StdOutLogger_log (getLevel (construct w loc p))
              (formatMessage wording (construct w loc p)) lg)
         = cout lg @ ''[WRN] '' @ formatMessage wording (construct s loc p) @ [CHR 0x0A]"
proof -
  from assms have m: "(s, w) \<in> set twins"
    by (rule is_twin_in_twins)
  with twins_props have p: "members w = members s" "static_level s = error"
    "static_level w = warning" "static_errorCode w = Suc (static_errorCode s)"
    by (auto simp: list_all_iff)
  from m have c: "condition w = condition s"
    by (rule twins_condition)
  have e: "loglevelstring error = ''[ERR]''" and v: "loglevelstring warning = ''[WRN]''"
    by (simp_all add: loglevelstring_def loglevel_defs)
  from p c e v show ?thesis
    by (simp add: formatMessage_construct getLevel_construct StdOutLogger_log_def)
qed

theorem Strong_Weak_siblings_witness:
  "ExpectedArraySizeMissmatch \<in> set catalog \<and> ExpectedArraySizeMissmatchWeak \<in> set catalog
   \<and> is_twin ExpectedArraySizeMissmatch ExpectedArraySizeMissmatchWeak
   \<and> members ExpectedArraySizeMissmatchWeak = members ExpectedArraySizeMissmatch
   \<and> static_level ExpectedArraySizeMissmatch = error
   \<and> static_level ExpectedArraySizeMissmatchWeak = warning
   \<and> static_errorCode ExpectedArraySizeMissmatchWeak \<noteq> static_errorCode ExpectedArraySizeMissmatch
   \<and> formatMessage (\<lambda>c loc p. path loc @ p)
        (construct ExpectedArraySizeMissmatchWeak \<lparr>path = ''test.sqf'', line = 3, col = 7\<rparr> ''2 5'')
      = formatMessage (\<lambda>c loc p. path loc @ p)
        (construct ExpectedArraySizeMissmatch \<lparr>path = ''test.sqf'', line = 3, col = 7\<rparr> ''2 5'')"
proof -
  have a: "ExpectedArraySizeMissmatch \<in> set catalog"
    and b: "ExpectedArraySizeMissmatchWeak \<in> set catalog"
    unfolding catalog_def by simp_all
  have c: "is_twin ExpectedArraySizeMissmatch ExpectedArraySizeMissmatchWeak"
    by (simp add: is_twin_def ExpectedArraySizeMissmatch_def ExpectedArraySizeMissmatchWeak_def)
  from Strong_Weak_siblings [OF a b c, of "\<lambda>c loc p. path loc @ p"
      "\<lparr>path = ''test.sqf'', line = 3, col = 7\<rparr>" "''2 5''"] a b c
  show ?thesis
    by simp
qed

section \<open>The sink and the emit path\<close>

text \<open>
  C3. For every level and every state of the gates, a direct call of the sink
  appends the line made of the level's tag, a space, the text and a newline to the
  output, and leaves the gates as they are; the gates have no influence on what the
  call does, so in particular a closed gate for the level does not stop it.
\<close>

theorem StdOutLogger_log_ignores_gates:
  "cout (StdOutLogger_log l text lg) = cout lg @ loglevelstring l @ '' '' @ text @ [CHR 0x0A]
   \<and> enabledWarningLevels (StdOutLogger_log l text lg) = enabledWarningLevels lg
   \<and> StdOutLogger_log l text (lg\<lparr>enabledWarningLevels := g\<rparr>)
       = (StdOutLogger_log l text lg)\<lparr>enabledWarningLevels := g\<rparr>"
  by (cases lg) (simp add: StdOutLogger_log_def)

theorem StdOutLogger_log_closed_gate_witness:
  "setEnabled StdOutLogger_ctor warning False
     = Some \<lparr>enabledWarningLevels = [True, True, False, True, True, True], cout = []\<rparr>
   \<and> isEnabled \<lparr>enabledWarningLevels = [True, True, False, True, True, True], cout = []\<rparr> warning
       = Some False
   \<and> cout (StdOutLogger_log warning ''text''
        \<lparr>enabledWarningLevels = [True, True, False, True, True, True], cout = []\<rparr>)
       = ''[WRN] text'' @ [CHR 0x0A]"
proof -
  let ?lg = "\<lparr>enabledWarningLevels = [True, True, False, True, True, True], cout = []\<rparr>"
  have a: "setEnabled StdOutLogger_ctor warning False = Some ?lg"
    by (simp add: setEnabled_def StdOutLogger_ctor_def Logger_ctor_def Logger.extend_def
        StdOutLogger.fields_def static_cast_size_t_loglevels)
  have b: "isEnabled ?lg warning = Some False"
    by (simp add: isEnabled_def static_cast_size_t_loglevels)
  have c: "loglevelstring warning = ''[WRN]''"
    by (simp add: loglevelstring_def loglevel_defs)
  from StdOutLogger_log_ignores_gates [of warning "''text''" ?lg "[]"]
  have d: "cout (StdOutLogger_log warning ''text'' ?lg)
      = cout ?lg @ loglevelstring warning @ '' '' @ ''text'' @ [CHR 0x0A]"
    by (rule conjunct1)
  from a b c d show ?thesis
    by simp
qed

text \<open>
  C2. Emitting a message through a logger whose gate for the message's severity is
  closed leaves the logger as it is, for every sink, and makes no call of the
  message's rendering; with the gate open it makes one call of the rendering and
  one call of the sink, with the severity and the rendered text.
\<close>

theorem CanLog_log_gate:
  "(isEnabled lg (getLevel m) = Some False
      \<longrightarrow> CanLog_log sink render m (lg, n) = Some (lg, n))
   \<and> (isEnabled lg (getLevel m) = Some True
      \<longrightarrow> CanLog_log sink render m (lg, n) = Some (sink (getLevel m) (render m) lg, Suc n))"
  by (simp add: CanLog_log_def)

theorem CanLog_log_gate_witness:
  "isEnabled \<lparr>enabledWarningLevels = [True, True, False, True, True, True], cout = []\<rparr>
       (getLevel (construct VariableNotFound \<lparr>path = ''test.sqf'', line = 3, col = 7\<rparr> ''_foo''))
     = Some False
   \<and> CanLog_log StdOutLogger_log (formatMessage (\<lambda>c loc p. path loc @ '' '' @ p))
       (construct VariableNotFound \<lparr>path = ''test.sqf'', line = 3, col = 7\<rparr> ''_foo'')
       (\<lparr>enabledWarningLevels = [True, True, False, True, True, True], cout = []\<rparr>, 0)
     = Some (\<lparr>enabledWarningLevels = [True, True, False, True, True, True], cout = []\<rparr>, 0)
   \<and> isEnabled \<lparr>enabledWarningLevels = [True, True, False, True, True, True], cout = []\<rparr>
       (getLevel (construct AssertFailed \<lparr>path = ''test.sqf'', line = 3, col = 7\<rparr> ''failed''))
     = Some True
   \<and> CanLog_log StdOutLogger_log (formatMessage (\<lambda>c loc p. path loc @ '' '' @ p))
       (construct AssertFailed \<lparr>path = ''test.sqf'', line = 3, col = 7\<rparr> ''failed'')
       (\<lparr>enabledWarningLevels = [True, True, False, True, True, True], cout = []\<rparr>, 0)
     = Some (\<lparr>enabledWarningLevels = [True, True, False, True, True, True],
              cout = ''[ERR] test.sqf failed'' @ [CHR 0x0A]\<rparr>, 1)"
proof -
  let ?lg = "\<lparr>enabledWarningLevels = [True, True, False, True, True, True], cout = []\<rparr>"
  let ?loc = "\<lparr>path = ''test.sqf'', line = 3, col = 7\<rparr>"
  let ?render = "formatMessage (\<lambda>c loc p. path loc @ '' '' @ p)"
  have w: "isEnabled ?lg (getLevel (construct VariableNotFound ?loc ''_foo'')) = Some False"
    by (simp add: getLevel_construct VariableNotFound_def isEnabled_def static_cast_size_t_loglevels)
  have e: "isEnabled ?lg (getLevel (construct AssertFailed ?loc ''failed'')) = Some True"
    by (simp add: getLevel_construct AssertFailed_def isEnabled_def static_cast_size_t_loglevels)
  have t: "loglevelstring (getLevel (construct AssertFailed ?loc ''failed'')) = ''[ERR]''"
    by (simp add: getLevel_construct AssertFailed_def loglevelstring_def loglevel_defs)
  from w e t
    CanLog_log_gate [of ?lg "construct VariableNotFound ?loc ''_foo''" StdOutLogger_log ?render 0]
    CanLog_log_gate [of ?lg "construct AssertFailed ?loc ''failed''" StdOutLogger_log ?render 0]
  show ?thesis
    by (simp add: formatMessage_construct StdOutLogger_log_def)
qed

text \<open>Emitting changes no gate, whenever the bound sink changes none.\<close>

lemma CanLog_log_gates:
  assumes "\<And>l text lg. enabledWarningLevels (sink l text lg) = enabledWarningLevels lg"
    and "CanLog_log sink render m (lg, n) = Some (lg', n')"
  shows "enabledWarningLevels lg' = enabledWarningLevels lg"
  using assms by (auto simp: CanLog_log_def split: option.splits if_splits)

text \<open>
  On a logger with its six gates, emitting a message of any class of the catalog
  returns: the gate of its severity exists.
\<close>

lemma CanLog_log_returns:
  assumes "length (enabledWarningLevels lg) = 6" and "k \<in> set catalog"
  shows "\<exists>st. CanLog_log sink render (construct k loc p) (lg, n) = Some st"
proof -
  from assms(2) catalog_levels have "static_level k \<in> set loglevels"
    by (simp add: list_all_iff)
  with assms(1) have "isEnabled lg (getLevel (construct k loc p)) \<noteq> None"
    by (simp add: getLevel_construct isEnabled_defined)
  then show ?thesis
    by (auto simp: CanLog_log_def)
qed

end
